theory Spec2Isabelle
  imports Complex_Main "HOL-Library.AList"
begin

section \<open>Strings, paths and the regular expressions of the version search\<close>





text \<open>\<open>os.path.basename\<close>: everything after the last separator.\<close>

definition basename :: "string \<Rightarrow> string" where
  "basename p = rev (takeWhile (\<lambda>c. c \<noteq> CHR ''/'') (rev p))"

text \<open>
  \<open>os.path.dirname\<close>: everything up to the last separator, with trailing separators
  stripped unless the head consists of separators only.
\<close>

definition dirname :: "string \<Rightarrow> string" where
  "dirname p =
     (let head = rev (dropWhile (\<lambda>c. c \<noteq> CHR ''/'') (rev p))
      in if head \<noteq> [] \<and> \<not> list_all (\<lambda>c. c = CHR ''/'') head
         then rev (dropWhile (\<lambda>c. c = CHR ''/'') (rev head))
         else head)"






text \<open>
  The file system as the function sees it: \<open>os.path.exists\<close>, and \<open>os.listdir\<close>, which
  is \<open>None\<close> when the call raises.
\<close>

record fs =
  fs_exists :: "string \<Rightarrow> bool"
  fs_listdir :: "string \<Rightarrow> string list option"


subsection \<open>The naming pattern of versioned files, as the specification words it\<close>




section \<open>The data model\<close>

text \<open>
  The add-on keeps no data of its own: its state is the host's scene, the properties it
  registers on the scene, the module's global \<open>updating\<close> flag and the render queue.
  A property is modelled as a record field, and an assignment to it as a record update.
  An integer property holds a Python integer. Where a value that did not come from a
  property of the same type is assigned (a value read from JSON, or from a settings
  dictionary), the host converts it or raises; that conversion is taken from the
  environment. The \<open>update=\<close> callbacks that the host runs after an assignment are not
  part of the function that assigns.
\<close>

subsection \<open>Python values\<close>

text \<open>The values that \<open>json.loads\<close> returns and that a settings dictionary holds.\<close>

datatype pyval =
    PNone
  | PBool bool
  | PInt int
  | PFloat real
  | PStr string
  | PList "pyval list"
  | PDict "(string \<times> pyval) list"

text \<open>
  The exceptions the model distinguishes. A function that can raise returns the state it
  reached together with \<open>Some\<close> of the exception, since its assignments so far persist.
\<close>

datatype py_error = TypeError | KeyError | OSError | RuntimeError

text \<open>The return values of an operator and the levels of \<open>self.report\<close>.\<close>

datatype op_result = FINISHED | CANCELLED

datatype report_type = INFO | WARNING | ERROR

subsection \<open>The scene and its render settings\<close>

text \<open>\<open>scene.render.image_settings\<close>; \<open>compression\<close> is \<open>None\<close> where the host has no such attribute.\<close>

record image_settings =
  file_format :: string
  color_mode :: string
  color_depth :: string
  compression :: "int option"
  quality :: int

text \<open>\<open>scene.render.ffmpeg\<close>; \<open>audio_mixrate\<close> is \<open>None\<close> where the host has no such attribute.\<close>

record ffmpeg_settings =
  format :: string
  codec :: string
  audio_codec :: string
  constant_rate_factor :: string
  ffmpeg_preset :: string
  gopsize :: int
  use_autosplit :: bool
  audio_channels :: string
  audio_bitrate :: int
  audio_mixrate :: "int option"

text \<open>\<open>scene.render\<close>; \<open>use_sequencer\<close> is \<open>None\<close> where the host has no such attribute.\<close>

record render_settings =
  fps :: int
  resolution_percentage :: int
  filepath :: string
  image_settings :: image_settings
  use_stamp :: bool
  use_stamp_frame :: bool
  use_stamp_frame_range :: bool
  use_stamp_camera :: bool
  use_stamp_lens :: bool
  use_stamp_scene :: bool
  stamp_font_size :: int
  use_stamp_date :: bool
  use_stamp_time :: bool
  use_stamp_render_time :: bool
  use_stamp_memory :: bool
  use_stamp_hostname :: bool
  use_stamp_marker :: bool
  use_stamp_filename :: bool
  ffmpeg :: ffmpeg_settings
  use_sequencer :: "bool option"
  use_simplify :: bool

text \<open>The enumerations the add-on registers (\<open>register\<close>, the \<open>items\<close> of each property).\<close>

datatype save_mode = INCREMENTAL | OVERWRITE

datatype output_format = MP4_H264 | MOV_H264 | PNG_SEQ | JPEG_SEQ

datatype video_quality = HIGH | MEDIUM | LOW

text \<open>
  The scene: the host's own properties first, then the properties of \<open>register\<close>.
  \<open>camera\<close> is the name of the scene's camera object, or \<open>None\<close>.
\<close>

record scene =
  frame_start :: int
  frame_end :: int
  frame_current :: int
  camera :: "string option"
  render :: render_settings
  quickpreview_progress :: real
  quickpreview_is_rendering :: bool
  quickpreview_use_simplify :: bool
  quickpreview_burn_metadata :: bool
  quickpreview_metadata_fontsize :: int
  quickpreview_output_path :: string
  quickpreview_camera_ranges :: string
  quickpreview_camera :: string
  quickpreview_include_camera :: bool
  quickpreview_include_scene_name :: bool
  quickpreview_save_mode :: save_mode
  quickpreview_frame_start :: int
  quickpreview_frame_end :: int
  quickpreview_override_fps :: bool
  quickpreview_fps :: int
  quickpreview_override_resolution_scale :: bool
  quickpreview_resolution_scale :: int
  quickpreview_open_after_render :: bool
  quickpreview_open_output_folder :: bool
  quickpreview_output_format :: output_format
  quickpreview_video_quality :: video_quality
  quickpreview_image_quality :: int

text \<open>Assignments below \<open>scene.render\<close>.\<close>

definition upd_render :: "(render_settings \<Rightarrow> render_settings) \<Rightarrow> scene \<Rightarrow> scene" where
  "upd_render f s = s\<lparr>render := f (render s)\<rparr>"

definition upd_image :: "(image_settings \<Rightarrow> image_settings) \<Rightarrow> scene \<Rightarrow> scene" where
  "upd_image f s = upd_render (\<lambda>r. r\<lparr>image_settings := f (image_settings r)\<rparr>) s"

definition upd_ffmpeg :: "(ffmpeg_settings \<Rightarrow> ffmpeg_settings) \<Rightarrow> scene \<Rightarrow> scene" where
  "upd_ffmpeg f s = upd_render (\<lambda>r. r\<lparr>ffmpeg := f (ffmpeg r)\<rparr>) s"

text \<open>The add-on's state: the scene and the module's global \<open>updating\<close>.\<close>

record addon =
  scene :: scene
  updating :: bool

subsection \<open>The environment\<close>

text \<open>
  What the code calls and does not define: Python's \<open>json\<close> module, the host's conversion
  of an assigned value (\<open>None\<close> when the host raises), the names in \<open>bpy.data.objects\<close>,
  \<open>bpy.data.is_saved\<close> and \<open>bpy.path.abspath\<close>. \<open>get_scene_name\<close> and
  \<open>get_default_output_folder\<close> only read the host's file name and the temporary directory
  and catch what they raise; their results are part of the environment too.
\<close>

datatype skey =
    K_frame_start | K_frame_end | K_camera
  | K_fps | K_resolution_percentage | K_filepath
  | K_file_format | K_color_mode | K_color_depth | K_compression
  | K_use_stamp | K_use_stamp_frame | K_use_stamp_frame_range | K_use_stamp_camera
  | K_use_stamp_lens | K_use_stamp_scene | K_stamp_font_size
  | K_ffmpeg_format | K_ffmpeg_codec | K_ffmpeg_audio_codec | K_ffmpeg_constant_rate_factor
  | K_ffmpeg_ffmpeg_preset | K_ffmpeg_gopsize | K_ffmpeg_use_autosplit
  | K_ffmpeg_audio_channels | K_ffmpeg_audio_bitrate
  | K_audio_mixrate | K_use_sequencer | K_use_simplify

record host =
  json_loads :: "string \<Rightarrow> pyval option"
  json_dumps :: "pyval \<Rightarrow> string"
  host_int :: "pyval \<Rightarrow> int option"
  host_bool :: "pyval \<Rightarrow> bool option"
  host_str :: "skey \<Rightarrow> pyval \<Rightarrow> string option"
  objects :: "string list"
  is_saved :: bool
  abspath :: "string \<Rightarrow> string"
  get_scene_name :: string
  get_default_output_folder :: string

section \<open>The per-camera frame ranges\<close>

text \<open>
  \<open>scene.quickpreview_camera_ranges\<close> is a string holding a JSON object: camera name to
  \<open>{"start": s, "end": e}\<close>. A Python dictionary is an association list; an assignment
  to a key replaces the entry in place or appends it, and \<open>del\<close> removes it.
\<close>

definition VIEWPORT :: string where
  "VIEWPORT = ''VIEWPORT''"

text \<open>\<open>x or "{}"\<close> on a string \<open>x\<close>.\<close>

definition or_empty_object :: "string \<Rightarrow> string" where
  "or_empty_object x = (if x = [] then ''{}'' else x)"

text \<open>The dictionary \<open>{'start': s, 'end': e}\<close>.\<close>

definition range_entry :: "int \<Rightarrow> int \<Rightarrow> pyval" where
  "range_entry s e = PDict [(''start'', PInt s), (''end'', PInt e)]"

text \<open>
  \<open>data[key] = value\<close>: only a dictionary takes an assignment to a string key; a list, a
  string and every other value raise \<open>TypeError\<close>.
\<close>

definition py_setitem :: "pyval \<Rightarrow> string \<Rightarrow> pyval \<Rightarrow> py_error + pyval" where
  "py_setitem data key v =
     (case data of
        PDict d \<Rightarrow> Inr (PDict (AList.update key v d))
      | _ \<Rightarrow> Inl TypeError)"

text \<open>
  \<open>key in data\<close> for a string \<open>key\<close>: membership among the keys of a dictionary, among
  the elements of a list, as a substring of a string; \<open>TypeError\<close> on a value that is not
  a container.
\<close>

definition is_substring :: "string \<Rightarrow> string \<Rightarrow> bool" where
  "is_substring x y = (\<exists>i\<in>set [0..<Suc (length y)]. take (length x) (drop i y) = x)"

definition py_contains :: "pyval \<Rightarrow> string \<Rightarrow> py_error + bool" where
  "py_contains data key =
     (case data of
        PDict d \<Rightarrow> Inr (map_of d key \<noteq> None)
      | PList xs \<Rightarrow> Inr (PStr key \<in> set xs)
      | PStr x \<Rightarrow> Inr (is_substring key x)
      | _ \<Rightarrow> Inl TypeError)"

text \<open>
  \<open>data[key]\<close> for a string \<open>key\<close>: the entry of a dictionary, \<open>KeyError\<close> when it has
  none, \<open>TypeError\<close> on every other value.
\<close>

definition py_getitem :: "pyval \<Rightarrow> string \<Rightarrow> py_error + pyval" where
  "py_getitem data key =
     (case data of
        PDict d \<Rightarrow> (case map_of d key of None \<Rightarrow> Inl KeyError | Some v \<Rightarrow> Inr v)
      | _ \<Rightarrow> Inl TypeError)"

text \<open>
  \<open>del data[key]\<close> for a string \<open>key\<close> that \<open>data\<close> contains: removes the entry of a
  dictionary; a list and a string raise \<open>TypeError\<close>.
\<close>

definition py_delitem :: "pyval \<Rightarrow> string \<Rightarrow> py_error + pyval" where
  "py_delitem data key =
     (case data of
        PDict d \<Rightarrow> Inr (PDict (AList.delete key d))
      | _ \<Rightarrow> Inl TypeError)"

text \<open>
  \<open>json.loads(context.scene.quickpreview_camera_ranges or "{}")\<close> inside a \<open>try\<close> whose
  handler leaves the empty dictionary: how \<open>save_camera_frame_range\<close> and the delete
  operator read the property.
\<close>

definition loaded_ranges :: "host \<Rightarrow> scene \<Rightarrow> pyval" where
  "loaded_ranges h s =
     (case json_loads h (or_empty_object (quickpreview_camera_ranges s)) of
        None \<Rightarrow> PDict []
      | Some d \<Rightarrow> d)"

text \<open>
  The dictionary of \<open>save_camera_frame_range\<close> after
  \<open>data[camera_name] = {'start': ..., 'end': ...}\<close>, or the exception of that assignment.
\<close>

definition updated_ranges :: "host \<Rightarrow> scene \<Rightarrow> string \<Rightarrow> py_error + pyval" where
  "updated_ranges h s camera_name =
     py_setitem (loaded_ranges h s) camera_name
       (range_entry (quickpreview_frame_start s) (quickpreview_frame_end s))"

text \<open>
  \<open>save_camera_frame_range(context, camera_name)\<close>. The body is a \<open>try\<close> with a
  \<open>finally\<close> and no handler: the exception of the assignment to \<open>data[camera_name]\<close>
  leaves the function after \<open>updating\<close> is cleared. \<open>debug_camera_ranges\<close> changes
  nothing and catches what it raises.
\<close>

definition save_camera_frame_range ::
  "host \<Rightarrow> addon \<Rightarrow> string \<Rightarrow> addon \<times> py_error option" where
  "save_camera_frame_range h a camera_name =
     (if camera_name = VIEWPORT then (a, None)
      else
        case updated_ranges h (scene a) camera_name of
          Inl e \<Rightarrow> (a\<lparr>updating := False\<rparr>, Some e)
        | Inr data \<Rightarrow>
            (a\<lparr>scene := (scene a)\<lparr>quickpreview_camera_ranges := json_dumps h data\<rparr>,
               updating := False\<rparr>, None))"

text \<open>
  The two assignments of \<open>load_camera_frame_range\<close>, \<open>ranges['start']\<close> first. Each
  reads the entry and has the host convert it for the integer property; the first that
  raises ends the function, with what was assigned before it kept.
\<close>

definition load_ranges :: "host \<Rightarrow> pyval \<Rightarrow> scene \<Rightarrow> scene \<times> py_error option" where
  "load_ranges h ranges s =
     (case py_getitem ranges ''start'' of
        Inl e \<Rightarrow> (s, Some e)
      | Inr v1 \<Rightarrow>
          (case host_int h v1 of
             None \<Rightarrow> (s, Some TypeError)
           | Some n1 \<Rightarrow>
               let s1 = s\<lparr>quickpreview_frame_start := n1\<rparr>
               in case py_getitem ranges ''end'' of
                    Inl e \<Rightarrow> (s1, Some e)
                  | Inr v2 \<Rightarrow>
                      (case host_int h v2 of
                         None \<Rightarrow> (s1, Some TypeError)
                       | Some n2 \<Rightarrow> (s1\<lparr>quickpreview_frame_end := n2\<rparr>, None))))"

text \<open>
  \<open>load_camera_frame_range(context, camera_name)\<close>. It returns at once while \<open>updating\<close>
  is set and for the viewport pseudo-camera; a property that does not parse is caught and
  ends the function; everything else that raises leaves it after \<open>updating\<close> is cleared.
\<close>

definition load_camera_frame_range ::
  "host \<Rightarrow> addon \<Rightarrow> string \<Rightarrow> addon \<times> py_error option" where
  "load_camera_frame_range h a camera_name =
     (if updating a then (a, None)
      else if camera_name = VIEWPORT then (a, None)
      else
        case json_loads h (quickpreview_camera_ranges (scene a)) of
          None \<Rightarrow> (a\<lparr>updating := False\<rparr>, None)
        | Some data \<Rightarrow>
            (case py_contains data camera_name of
               Inl e \<Rightarrow> (a\<lparr>updating := False\<rparr>, Some e)
             | Inr False \<Rightarrow> (a\<lparr>updating := False\<rparr>, None)
             | Inr True \<Rightarrow>
                 (case py_getitem data camera_name of
                    Inl e \<Rightarrow> (a\<lparr>updating := False\<rparr>, Some e)
                  | Inr ranges \<Rightarrow>
                      let (s', r) = load_ranges h ranges (scene a)
                      in (a\<lparr>scene := s', updating := False\<rparr>, r))))"

text \<open>
  \<open>QUICKPREVIEW_OT_delete_camera_range.execute\<close>, with the operator's \<open>camera_name\<close>. The
  parse is in a \<open>try\<close> whose handler keeps the empty dictionary; the membership test and
  the deletion are outside it. The result is the scene, the reports, and the operator's
  return value or the exception that leaves it.
\<close>

definition delete_camera_range_execute ::
  "host \<Rightarrow> string \<Rightarrow> scene \<Rightarrow> scene \<times> (report_type \<times> string) list \<times> (py_error + op_result)" where
  "delete_camera_range_execute h camera_name s =
     (let data = loaded_ranges h s
      in case py_contains data camera_name of
           Inl e \<Rightarrow> (s, [], Inl e)
         | Inr True \<Rightarrow>
             (case py_delitem data camera_name of
                Inl e \<Rightarrow> (s, [], Inl e)
              | Inr data' \<Rightarrow>
                  (s\<lparr>quickpreview_camera_ranges := json_dumps h data'\<rparr>,
                   [(INFO, ''Deleted range for '' @ camera_name)], Inr FINISHED))
         | Inr False \<Rightarrow>
             (s, [(WARNING, ''No stored range for '' @ camera_name)], Inr FINISHED))"

section \<open>The output path\<close>

text \<open>\<open>os.path.join\<close> of two components.\<close>

definition os_path_join :: "string \<Rightarrow> string \<Rightarrow> string" where
  "os_path_join a b =
     (if b \<noteq> [] \<and> hd b = CHR ''/'' then b
      else if a = [] \<or> last a = CHR ''/'' then a @ b
      else a @ ''/'' @ b)"

text \<open>The decimal digits of a natural number, and \<open>f"{n:03d}"\<close>: the sign counts in the width.\<close>

fun decimal :: "nat \<Rightarrow> string" where
  "decimal n =
     (if n < 10 then [''0123456789'' ! n]
      else decimal (n div 10) @ [''0123456789'' ! (n mod 10)])"

declare decimal.simps [simp del]

definition zero_pad :: "nat \<Rightarrow> string \<Rightarrow> string" where
  "zero_pad w ds = replicate (w - length ds) (CHR ''0'') @ ds"

definition fmt_03d :: "int \<Rightarrow> string" where
  "fmt_03d n =
     (if n < 0 then CHR ''-'' # zero_pad 2 (decimal (nat (- n)))
      else zero_pad 3 (decimal (nat n)))"

text \<open>\<open>"_".join(parts)\<close>.\<close>

fun join_underscore :: "string list \<Rightarrow> string" where
  "join_underscore [] = []"
| "join_underscore [p] = p"
| "join_underscore (p # q # ps) = p @ ''_'' @ join_underscore (q # ps)"

text \<open>The \<open>basename\<close> of \<open>update_output_path\<close>: scene name, camera name and frame range.\<close>

definition output_basename :: "host \<Rightarrow> scene \<Rightarrow> string" where
  "output_basename h s =
     join_underscore
       ((if quickpreview_include_scene_name s then [get_scene_name h] else [])
        @ (if quickpreview_include_camera s \<and> quickpreview_camera s \<noteq> VIEWPORT
           then [quickpreview_camera s] else [])
        @ [fmt_03d (quickpreview_frame_start s) @ ''-'' @ fmt_03d (quickpreview_frame_end s)])"

text \<open>
  The \<open>output_folder\<close> of \<open>update_output_path\<close>: the directory of the current path when
  it exists, else the default folder.
\<close>

definition output_folder :: "host \<Rightarrow> fs \<Rightarrow> scene \<Rightarrow> string" where
  "output_folder h fs s =
     (let current_path = quickpreview_output_path s;
          found =
            (if current_path \<noteq> [] \<and> dirname current_path \<noteq> [] then
               (let directory = dirname (abspath h current_path)
                in if fs_exists fs directory then directory else [])
             else [])
      in if found = [] then get_default_output_folder h else found)"

text \<open>The \<open>extension\<close> of \<open>update_output_path\<close>.\<close>

definition format_extension :: "output_format \<Rightarrow> string" where
  "format_extension f =
     (if f = MP4_H264 then ''.mp4''
      else if f = PNG_SEQ then ''.png''
      else if f = JPEG_SEQ then ''.jpg''
      else ''.mov'')"

text \<open>
  \<open>update_output_path(self, context)\<close>. \<open>manually_edited\<close> is the value of
  \<open>self and hasattr(self, 'is_path_manually_edited') and self.is_path_manually_edited\<close>.
  The calls of the body do not raise in this model, so the handler of the \<open>try\<close> is not
  entered; the \<open>finally\<close> clears \<open>updating\<close> on both ways out.
\<close>

definition update_output_path :: "host \<Rightarrow> fs \<Rightarrow> bool \<Rightarrow> addon \<Rightarrow> addon" where
  "update_output_path h fs manually_edited a =
     (let s = scene a in
      if manually_edited then a\<lparr>updating := False\<rparr>
      else
        let basename = output_basename h s;
            output_folder = output_folder h fs s;
            extension = format_extension (quickpreview_output_format s)
        in if quickpreview_output_format s \<in> {PNG_SEQ, JPEG_SEQ} then
             let output_file =
                   (if quickpreview_save_mode s = INCREMENTAL
                    then basename @ ''_v001/'' @ basename @ ''_v001_####''
                    else basename @ ''/'' @ basename @ ''_####'')
             in a\<lparr>scene := s\<lparr>quickpreview_output_path := os_path_join output_folder output_file\<rparr>,
                  updating := False\<rparr>
           else
             let output_file =
                   (if quickpreview_save_mode s = INCREMENTAL
                    then basename @ ''_v001'' @ extension
                    else basename @ extension)
             in a\<lparr>scene := s\<lparr>quickpreview_output_path := os_path_join output_folder output_file\<rparr>,
                  updating := False\<rparr>)"

section \<open>A scene and a host for the examples\<close>

text \<open>
  A new scene: the properties of the add-on at the defaults that \<open>register\<close> gives them
  (the camera selector at its first item), the host's own at the values of a new file.
\<close>

definition initial_scene :: scene where
  "initial_scene =
     \<lparr>frame_start = 1, frame_end = 250, frame_current = 1, camera = Some ''Camera'',
      render =
        \<lparr>fps = 24, resolution_percentage = 100, filepath = ''/tmp/'',
         image_settings =
           \<lparr>file_format = ''PNG'', color_mode = ''RGBA'', color_depth = ''8'',
            compression = Some 15, quality = 90\<rparr>,
         use_stamp = False, use_stamp_frame = True, use_stamp_frame_range = False,
         use_stamp_camera = True, use_stamp_lens = False, use_stamp_scene = True,
         stamp_font_size = 12,
         use_stamp_date = True, use_stamp_time = True, use_stamp_render_time = True,
         use_stamp_memory = False, use_stamp_hostname = False, use_stamp_marker = False,
         use_stamp_filename = True,
         ffmpeg =
           \<lparr>format = ''MKV'', codec = ''H264'', audio_codec = ''NONE'',
            constant_rate_factor = ''MEDIUM'', ffmpeg_preset = ''GOOD'', gopsize = 12,
            use_autosplit = False, audio_channels = ''STEREO'', audio_bitrate = 192,
            audio_mixrate = Some 48000\<rparr>,
         use_sequencer = Some True, use_simplify = False\<rparr>,
      quickpreview_progress = 0, quickpreview_is_rendering = False,
      quickpreview_use_simplify = False, quickpreview_burn_metadata = True,
      quickpreview_metadata_fontsize = 24, quickpreview_output_path = [],
      quickpreview_camera_ranges = ''{}'', quickpreview_camera = ''VIEWPORT'',
      quickpreview_include_camera = True, quickpreview_include_scene_name = True,
      quickpreview_save_mode = INCREMENTAL,
      quickpreview_frame_start = 1, quickpreview_frame_end = 250,
      quickpreview_override_fps = False, quickpreview_fps = 30,
      quickpreview_override_resolution_scale = False, quickpreview_resolution_scale = 50,
      quickpreview_open_after_render = False, quickpreview_open_output_folder = False,
      quickpreview_output_format = MP4_H264, quickpreview_video_quality = MEDIUM,
      quickpreview_image_quality = 90\<rparr>"

text \<open>
  Two dictionaries of camera ranges and their JSON texts, and \<open>json\<close> restricted to them
  and to the empty dictionary.
\<close>

definition one_range :: pyval where
  "one_range = PDict [(''Camera'', range_entry 10 20)]"

definition two_ranges :: pyval where
  "two_ranges = PDict [(''Camera'', range_entry 10 20), (''Top'', range_entry 5 8)]"

definition one_range_text :: string where
  \<open>one_range_text = ''{"Camera": {"start": 10, "end": 20}}''\<close>

definition two_ranges_text :: string where
  \<open>two_ranges_text = ''{"Camera": {"start": 10, "end": 20}, "Top": {"start": 5, "end": 8}}''\<close>

definition example_loads :: "string \<Rightarrow> pyval option" where
  "example_loads x =
     (if x = ''{}'' then Some (PDict [])
      else if x = one_range_text then Some one_range
      else if x = two_ranges_text then Some two_ranges
      else None)"

definition example_dumps :: "pyval \<Rightarrow> string" where
  "example_dumps v =
     (if v = one_range then one_range_text
      else if v = two_ranges then two_ranges_text
      else ''{}'')"

text \<open>
  A host whose properties take the values of their own type and raise on every other
  value, with one camera object.
\<close>

definition example_host :: host where
  "example_host =
     \<lparr>json_loads = example_loads, json_dumps = example_dumps,
      host_int = (\<lambda>v. case v of PInt n \<Rightarrow> Some n | _ \<Rightarrow> None),
      host_bool = (\<lambda>v. case v of PBool b \<Rightarrow> Some b | _ \<Rightarrow> None),
      host_str = (\<lambda>k v. case v of PStr x \<Rightarrow> Some x | _ \<Rightarrow> None),
      objects = [''Camera''], is_saved = True, abspath = (\<lambda>p. p),
      get_scene_name = ''shot'', get_default_output_folder = ''/proj/previews/''\<rparr>"

section \<open>The version search: \<open>get_next_version_number\<close>\<close>





























section \<open>The per-camera frame ranges: saving, loading, deleting\<close>

lemmas example_json_defs =
  example_host_def example_loads_def example_dumps_def one_range_def two_ranges_def
  one_range_text_def two_ranges_text_def range_entry_def

lemma map_of_range_entry:
  "py_getitem (range_entry s e) ''start'' = Inr (PInt s)"
  "py_getitem (range_entry s e) ''end'' = Inr (PInt e)"
  by (simp_all add: py_getitem_def range_entry_def)

lemma load_ranges_entry:
  assumes "host_int h (PInt s) = Some s" "host_int h (PInt e) = Some e"
  shows "load_ranges h (range_entry s e) sc
           = (sc\<lparr>quickpreview_frame_start := s, quickpreview_frame_end := e\<rparr>, None)"
  using assms by (simp add: load_ranges_def map_of_range_entry)

lemma updated_ranges_Inr:
  assumes "updated_ranges h s c = Inr d'"
  obtains d where "loaded_ranges h s = PDict d"
    and "d' = PDict (AList.update c (range_entry (quickpreview_frame_start s) (quickpreview_frame_end s)) d)"
  using assms unfolding updated_ranges_def py_setitem_def
  by (cases "loaded_ranges h s") auto

text \<open>
  Claim C2. For a camera name other than \<open>VIEWPORT\<close>: once \<open>save_camera_frame_range\<close> has
  stored the scene's \<open>quickpreview_frame_start\<close> and \<open>quickpreview_frame_end\<close> for the
  camera, a later \<open>load_camera_frame_range\<close> for the same camera, in any state that still
  holds the property as written and has \<open>updating\<close> clear (as the save leaves it), sets
  the two frame properties to the stored values. The save stores when the property held a
  JSON object or did not parse; \<open>json.loads\<close> is assumed to read back what \<open>json.dumps\<close>
  wrote, and the integer properties to take the integers they held.
\<close>

theorem camera_range_round_trip:
  assumes c: "c \<noteq> VIEWPORT"
    and upd: "updated_ranges h (scene a) c = Inr d'"
    and json: "json_loads h (json_dumps h d') = Some d'"
    and ints: "host_int h (PInt (quickpreview_frame_start (scene a))) = Some (quickpreview_frame_start (scene a))"
              "host_int h (PInt (quickpreview_frame_end (scene a))) = Some (quickpreview_frame_end (scene a))"
    and later: "quickpreview_camera_ranges (scene a2)
                  = quickpreview_camera_ranges (scene (fst (save_camera_frame_range h a c)))"
               "\<not> updating a2"
  shows "snd (save_camera_frame_range h a c) = None
       \<and> \<not> updating (fst (save_camera_frame_range h a c))
       \<and> snd (load_camera_frame_range h a2 c) = None
       \<and> quickpreview_frame_start (scene (fst (load_camera_frame_range h a2 c)))
            = quickpreview_frame_start (scene a)
       \<and> quickpreview_frame_end (scene (fst (load_camera_frame_range h a2 c)))
            = quickpreview_frame_end (scene a)"
proof -
  let ?s = "quickpreview_frame_start (scene a)" and ?e = "quickpreview_frame_end (scene a)"
  from upd obtain d where d': "d' = PDict (AList.update c (range_entry ?s ?e) d)"
    by (rule updated_ranges_Inr)
  have sv: "save_camera_frame_range h a c
        = (a\<lparr>scene := (scene a)\<lparr>quickpreview_camera_ranges := json_dumps h d'\<rparr>, updating := False\<rparr>, None)"
    using c upd by (simp add: save_camera_frame_range_def)
  have stored: "quickpreview_camera_ranges (scene a2) = json_dumps h d'"
    using later(1) sv by simp
  have cont: "py_contains d' c = Inr True"
    by (simp add: d' py_contains_def update_conv')
  have get: "py_getitem d' c = Inr (range_entry ?s ?e)"
    by (simp add: d' py_getitem_def update_conv')
  have ld: "load_camera_frame_range h a2 c
        = (a2\<lparr>scene := (scene a2)\<lparr>quickpreview_frame_start := ?s, quickpreview_frame_end := ?e\<rparr>,
               updating := False\<rparr>, None)"
    using c later(2) by (simp add: load_camera_frame_range_def stored json cont get load_ranges_entry[OF ints])
  show ?thesis by (simp add: sv ld)
qed



theorem camera_range_round_trip_witness:
  "''Camera'' \<noteq> VIEWPORT
   \<and> quickpreview_camera_ranges
        (scene (fst (save_camera_frame_range example_host
           \<lparr>scene = initial_scene\<lparr>quickpreview_frame_start := 10, quickpreview_frame_end := 20\<rparr>,
            updating = False\<rparr> ''Camera''))) = one_range_text
   \<and> quickpreview_frame_start
        (scene (fst (load_camera_frame_range example_host
           \<lparr>scene = initial_scene\<lparr>quickpreview_camera_ranges := one_range_text\<rparr>,
            updating = False\<rparr> ''Camera''))) = 10
   \<and> quickpreview_frame_end
        (scene (fst (load_camera_frame_range example_host
           \<lparr>scene = initial_scene\<lparr>quickpreview_camera_ranges := one_range_text\<rparr>,
            updating = False\<rparr> ''Camera''))) = 20"
proof -
  let ?a = "\<lparr>scene = initial_scene\<lparr>quickpreview_frame_start := 10, quickpreview_frame_end := 20\<rparr>,
             updating = False\<rparr>"
  let ?a2 = "\<lparr>scene = initial_scene\<lparr>quickpreview_camera_ranges := one_range_text\<rparr>,
              updating = False\<rparr>"
  have c: "''Camera'' \<noteq> VIEWPORT" by (simp add: VIEWPORT_def)
  have l: "loaded_ranges example_host (scene ?a) = PDict []"
    by (simp add: loaded_ranges_def or_empty_object_def initial_scene_def example_json_defs)
  have u: "updated_ranges example_host (scene ?a) ''Camera'' = Inr one_range"
    using l by (simp add: updated_ranges_def py_setitem_def one_range_def)
  have j: "json_loads example_host (json_dumps example_host one_range) = Some one_range"
    by (simp add: example_json_defs)
  have i: "host_int example_host (PInt (quickpreview_frame_start (scene ?a)))
             = Some (quickpreview_frame_start (scene ?a))"
    "host_int example_host (PInt (quickpreview_frame_end (scene ?a)))
             = Some (quickpreview_frame_end (scene ?a))"
    by (simp_all add: example_host_def)
  have sv: "quickpreview_camera_ranges (scene (fst (save_camera_frame_range example_host ?a ''Camera'')))
              = one_range_text"
    using c u by (simp add: save_camera_frame_range_def example_json_defs)
  have later: "quickpreview_camera_ranges (scene ?a2)
        = quickpreview_camera_ranges (scene (fst (save_camera_frame_range example_host ?a ''Camera'')))"
    "\<not> updating ?a2"
    by (simp_all add: sv)
  from camera_range_round_trip[OF c u j i later] c sv
  show ?thesis by simp
qed

text \<open>
  Claim C10. On a property that holds a JSON object (or does not parse, which reads as the
  empty object), the delete operator returns \<open>FINISHED\<close> in both cases. When the object has
  an entry for \<open>camera_name\<close>, it reports \<open>INFO\<close> and writes back the object without that
  entry, every other camera's entry as it was. When it has none, it reports \<open>WARNING\<close> and
  leaves the scene, and so the property, unchanged.
\<close>

theorem delete_camera_range_spec:
  assumes "loaded_ranges h s = PDict d"
  shows "(map_of d name \<noteq> None \<longrightarrow>
            delete_camera_range_execute h name s =
              (s\<lparr>quickpreview_camera_ranges := json_dumps h (PDict (AList.delete name d))\<rparr>,
               [(INFO, ''Deleted range for '' @ name)], Inr FINISHED)
            \<and> map_of (AList.delete name d) name = None
            \<and> (\<forall>c. c \<noteq> name \<longrightarrow> map_of (AList.delete name d) c = map_of d c))
       \<and> (map_of d name = None \<longrightarrow>
            delete_camera_range_execute h name s =
              (s, [(WARNING, ''No stored range for '' @ name)], Inr FINISHED))"
  using assms
  by (auto simp: delete_camera_range_execute_def py_contains_def py_delitem_def delete_conv')


theorem delete_camera_range_witness:
  "loaded_ranges example_host (initial_scene\<lparr>quickpreview_camera_ranges := two_ranges_text\<rparr>)
     = two_ranges
   \<and> delete_camera_range_execute example_host ''Top''
        (initial_scene\<lparr>quickpreview_camera_ranges := two_ranges_text\<rparr>)
     = (initial_scene\<lparr>quickpreview_camera_ranges := one_range_text\<rparr>,
        [(INFO, ''Deleted range for Top'')], Inr FINISHED)
   \<and> delete_camera_range_execute example_host ''Side''
        (initial_scene\<lparr>quickpreview_camera_ranges := two_ranges_text\<rparr>)
     = (initial_scene\<lparr>quickpreview_camera_ranges := two_ranges_text\<rparr>,
        [(WARNING, ''No stored range for Side'')], Inr FINISHED)"
proof -
  let ?s = "initial_scene\<lparr>quickpreview_camera_ranges := two_ranges_text\<rparr>"
  let ?d = "[(''Camera'', range_entry 10 20), (''Top'', range_entry 5 8)]"
  have l: "loaded_ranges example_host ?s = PDict ?d"
    by (simp add: loaded_ranges_def or_empty_object_def example_json_defs)
  have d: "json_dumps example_host (PDict (AList.delete ''Top'' ?d)) = one_range_text"
    by (simp add: example_json_defs AList.delete_eq)
  have m: "map_of ?d ''Top'' \<noteq> None" "map_of ?d ''Side'' = None" by simp_all
  from delete_camera_range_spec[OF l, of "''Top''"] delete_camera_range_spec[OF l, of "''Side''"] m d l
  show ?thesis by (simp add: two_ranges_def)
qed

section \<open>The generated output path\<close>

text \<open>
  Claim C4. When it generates the path (the path was not edited by hand),
  \<open>update_output_path\<close> joins the output folder with a file name chosen by format and save
  mode. For the two video formats: the basename, \<open>_v001\<close> and the format's extension in
  \<open>INCREMENTAL\<close> mode, the basename and the extension in \<open>OVERWRITE\<close> mode. For the two
  image-sequence formats: \<open><base>_v001/<base>_v001_####\<close> in \<open>INCREMENTAL\<close> mode and
  \<open><base>/<base>_####\<close> in \<open>OVERWRITE\<close> mode, with no extension.
\<close>

theorem update_output_path_filename:
  assumes "\<not> manually_edited"
  shows "quickpreview_output_path (scene (update_output_path h fs manually_edited a)) =
           os_path_join (output_folder h fs (scene a))
             (let base = output_basename h (scene a);
                  incremental = (quickpreview_save_mode (scene a) = INCREMENTAL)
              in case quickpreview_output_format (scene a) of
                   MP4_H264 \<Rightarrow> if incremental then base @ ''_v001'' @ ''.mp4'' else base @ ''.mp4''
                 | MOV_H264 \<Rightarrow> if incremental then base @ ''_v001'' @ ''.mov'' else base @ ''.mov''
                 | PNG_SEQ \<Rightarrow> if incremental then base @ ''_v001/'' @ base @ ''_v001_####''
                              else base @ ''/'' @ base @ ''_####''
                 | JPEG_SEQ \<Rightarrow> if incremental then base @ ''_v001/'' @ base @ ''_v001_####''
                               else base @ ''/'' @ base @ ''_####'')"
  using assms
  by (cases "quickpreview_output_format (scene a)")
     (simp_all add: update_output_path_def format_extension_def Let_def)

theorem update_output_path_filename_witness:
  "quickpreview_output_path
     (scene (update_output_path example_host \<lparr>fs_exists = (\<lambda>d. False), fs_listdir = (\<lambda>d. None)\<rparr>
        False \<lparr>scene = initial_scene, updating = False\<rparr>))
     = ''/proj/previews/shot_001-250_v001.mp4''
   \<and> quickpreview_output_path
     (scene (update_output_path example_host \<lparr>fs_exists = (\<lambda>d. False), fs_listdir = (\<lambda>d. None)\<rparr>
        False \<lparr>scene = initial_scene\<lparr>quickpreview_output_format := PNG_SEQ,
                                     quickpreview_save_mode := OVERWRITE\<rparr>, updating = False\<rparr>))
     = ''/proj/previews/shot_001-250/shot_001-250_####''"
proof -
  let ?fs = "\<lparr>fs_exists = (\<lambda>d. False), fs_listdir = (\<lambda>d. None)\<rparr>"
  let ?a = "\<lparr>scene = initial_scene, updating = False\<rparr>"
  let ?b = "\<lparr>scene = initial_scene\<lparr>quickpreview_output_format := PNG_SEQ,
                                  quickpreview_save_mode := OVERWRITE\<rparr>, updating = False\<rparr>"
  have f: "\<not> False" by simp
  have fmt: "fmt_03d 1 = ''001''" "fmt_03d 250 = ''250''" by code_simp+
  have base: "output_basename example_host initial_scene = ''shot_001-250''"
    by (simp add: output_basename_def initial_scene_def example_host_def VIEWPORT_def fmt)
  have base': "output_basename example_host (scene ?b) = ''shot_001-250''"
    by (simp add: output_basename_def initial_scene_def example_host_def VIEWPORT_def fmt)
  have folder: "output_folder example_host ?fs initial_scene = ''/proj/previews/''"
    "output_folder example_host ?fs (scene ?b) = ''/proj/previews/''"
    by (simp_all add: output_folder_def initial_scene_def example_host_def)
  have m: "quickpreview_output_format initial_scene = MP4_H264"
    "quickpreview_save_mode initial_scene = INCREMENTAL"
    by (simp_all add: initial_scene_def)
  from update_output_path_filename[OF f, of example_host ?fs ?a]
    update_output_path_filename[OF f, of example_host ?fs ?b]
    base base' folder m
  show ?thesis by (simp add: os_path_join_def)
qed

end
